theory Spec2Isabelle
  imports Main
begin

section \<open>Data model of accounts/models.py\<close>

text \<open>
  The module declares three Django models over an abstract base. A model instance is a
  record of its column values; a foreign key is the column holding the primary key of the
  row it points to (Django's \<open>user_id\<close>, \<open>account_id\<close>, \<open>account_user_id\<close>), and the
  attribute access \<open>self.account\<close> is a query that resolves that key in the stored state.
  The primary key of an instance is \<open>None\<close> until the instance has been saved.
  Django names the primary key \<open>id\<close> and \<open>pk\<close> alike; the record field is \<open>pk\<close>, since
  \<open>id\<close> is the identity function of HOL.
\<close>

type_synonym pk = nat
type_synonym datetime = nat

datatype model = User_model | Account_model | AccountUser_model | AccountOwner_model

datatype error =
    OwnershipRequired string
  | AccountMismatch
  | DoesNotExist model
  | MultipleObjectsReturned model
  | IntegrityError model
  | AttributeError string
  | AssertionError

text \<open>\<open>django.contrib.auth.models.User\<close>, as far as this module reads it.\<close>

record User =
  user_pk :: "pk option"
  first_name :: string
  last_name :: string

text \<open>\<open>class AccountsBase(models.Model)\<close>: the two timestamps, and the key every model has.\<close>

record AccountsBase =
  pk :: "pk option"
  created :: datetime
  modified :: datetime

record Account = AccountsBase +
  name :: string
  subdomain :: "string option"
  domain :: "string option"
  is_active :: bool

record AccountUser = AccountsBase +
  user_id :: pk
  account_id :: pk
  is_admin :: bool

record AccountOwner = AccountsBase +
  account_id :: pk
  account_user_id :: pk

text \<open>The stored state: one table per model, a table being the list of its rows.\<close>

record db =
  users :: "User list"
  accounts :: "Account list"
  account_users :: "AccountUser list"
  account_owners :: "AccountOwner list"

definition empty_db :: db where
  "empty_db = \<lparr>users = [], accounts = [], account_users = [], account_owners = []\<rparr>"

section \<open>The persistence layer the models inherit\<close>

text \<open>
  \<open>QuerySet.get\<close>: the one row that satisfies the lookup; no row and several rows are the
  two errors of Django.
\<close>

definition get :: "model \<Rightarrow> ('r \<Rightarrow> bool) \<Rightarrow> 'r list \<Rightarrow> error + 'r" where
  "get m P rows =
     (case filter P rows of
        [] \<Rightarrow> Inl (DoesNotExist m)
      | [r] \<Rightarrow> Inr r
      | _ \<Rightarrow> Inl (MultipleObjectsReturned m))"

text \<open>\<open>Model.__eq__\<close> and \<open>Model.__ne__\<close> between two instances of one model class.\<close>

definition Model_eq :: "'a AccountsBase_scheme \<Rightarrow> 'a AccountsBase_scheme \<Rightarrow> bool" where
  "Model_eq a b = (pk a = pk b)"

definition Model_ne :: "'a AccountsBase_scheme \<Rightarrow> 'a AccountsBase_scheme \<Rightarrow> bool" where
  "Model_ne a b = (\<not> Model_eq a b)"

text \<open>
  \<open>Model.save\<close>. An instance without a key is inserted under the next key of its table; an
  instance with a key replaces the row of that key, or is inserted under it when there is
  none. \<open>created\<close> is \<open>auto_now_add\<close> (set when the row is added), \<open>modified\<close> is
  \<open>auto_now\<close> (set on every save). The clock is the argument \<open>now\<close>.
\<close>

definition next_pk :: "'a AccountsBase_scheme list \<Rightarrow> pk" where
  "next_pk rows = Suc (foldr max (List.map_filter pk rows) 0)"

definition pre_save :: "datetime \<Rightarrow> 'a AccountsBase_scheme list \<Rightarrow> 'a AccountsBase_scheme
    \<Rightarrow> 'a AccountsBase_scheme" where
  "pre_save now rows self =
     (let k = (case pk self of None \<Rightarrow> next_pk rows | Some k \<Rightarrow> k);
          add = (filter (\<lambda>r. pk r = Some k) rows = [])
      in self\<lparr>pk := Some k, created := (if add then now else created self), modified := now\<rparr>)"

definition others :: "'a AccountsBase_scheme \<Rightarrow> 'a AccountsBase_scheme list
    \<Rightarrow> 'a AccountsBase_scheme list" where
  "others self rows = filter (\<lambda>r. pk r \<noteq> pk self) rows"

text \<open>
  The constraints of the schema are those the source declares, and the storage layer
  refuses the write that breaks one (\<open>IntegrityError\<close>), leaving the state as it was:
  \<open>unique=True\<close> on \<open>Account.subdomain\<close> and \<open>Account.domain\<close> (a unique column admits
  any number of NULLs), \<open>unique_together = ('user', 'account')\<close> on \<open>AccountUser\<close>, and the
  two \<open>OneToOneField\<close>s of \<open>AccountOwner\<close>, each a unique foreign key. The model does not
  check that a foreign key points to a stored row: the methods below resolve the keys they
  follow and fail where a key resolves to nothing.
\<close>

definition Model_save_Account :: "datetime \<Rightarrow> db \<Rightarrow> Account \<Rightarrow> db \<times> (error + Account)" where
  "Model_save_Account now d self =
     (let self' = pre_save now (accounts d) self;
          rest = others self' (accounts d)
      in if (subdomain self' \<noteq> None \<and> subdomain self' \<in> set (map subdomain rest))
            \<or> (domain self' \<noteq> None \<and> domain self' \<in> set (map domain rest))
         then (d, Inl (IntegrityError Account_model))
         else (d\<lparr>accounts := rest @ [self']\<rparr>, Inr self'))"

definition Model_save_AccountUser :: "datetime \<Rightarrow> db \<Rightarrow> AccountUser
    \<Rightarrow> db \<times> (error + AccountUser)" where
  "Model_save_AccountUser now d self =
     (let self' = pre_save now (account_users d) self;
          rest = others self' (account_users d)
      in if (user_id self', AccountUser.account_id self')
              \<in> set (map (\<lambda>r. (user_id r, AccountUser.account_id r)) rest)
         then (d, Inl (IntegrityError AccountUser_model))
         else (d\<lparr>account_users := rest @ [self']\<rparr>, Inr self'))"

definition Model_save_AccountOwner :: "datetime \<Rightarrow> db \<Rightarrow> AccountOwner
    \<Rightarrow> db \<times> (error + AccountOwner)" where
  "Model_save_AccountOwner now d self =
     (let self' = pre_save now (account_owners d) self;
          rest = others self' (account_owners d)
      in if AccountOwner.account_id self' \<in> set (map AccountOwner.account_id rest)
            \<or> account_user_id self' \<in> set (map account_user_id rest)
         then (d, Inl (IntegrityError AccountOwner_model))
         else (d\<lparr>account_owners := rest @ [self']\<rparr>, Inr self'))"

text \<open>
  \<open>Model.delete\<close>. It refuses an instance without a key, and it removes with the row every
  row that points to it (the foreign keys of this module all cascade), without calling the
  \<open>delete\<close> method of the rows it takes along.
\<close>

definition Model_delete_AccountOwner :: "db \<Rightarrow> AccountOwner \<Rightarrow> db \<times> (error + unit)" where
  "Model_delete_AccountOwner d self =
     (case pk self of
        None \<Rightarrow> (d, Inl AssertionError)
      | Some k \<Rightarrow> (d\<lparr>account_owners := filter (\<lambda>r. pk r \<noteq> Some k) (account_owners d)\<rparr>, Inr ()))"

definition Model_delete_AccountUser :: "db \<Rightarrow> AccountUser \<Rightarrow> db \<times> (error + unit)" where
  "Model_delete_AccountUser d self =
     (case pk self of
        None \<Rightarrow> (d, Inl AssertionError)
      | Some k \<Rightarrow>
         (d\<lparr>account_users := filter (\<lambda>r. pk r \<noteq> Some k) (account_users d),
            account_owners := filter (\<lambda>r. account_user_id r \<noteq> k) (account_owners d)\<rparr>, Inr ()))"

definition Model_delete_Account :: "db \<Rightarrow> Account \<Rightarrow> db \<times> (error + unit)" where
  "Model_delete_Account d self =
     (case pk self of
        None \<Rightarrow> (d, Inl AssertionError)
      | Some k \<Rightarrow>
         (let gone = filter (\<lambda>r. AccountUser.account_id r = k) (account_users d)
          in (d\<lparr>accounts := filter (\<lambda>r. pk r \<noteq> Some k) (accounts d),
                 account_users := filter (\<lambda>r. AccountUser.account_id r \<noteq> k) (account_users d),
                 account_owners := filter (\<lambda>r. AccountOwner.account_id r \<noteq> k
                     \<and> Some (account_user_id r) \<notin> set (map pk gone)) (account_owners d)\<rparr>,
              Inr ())))"

text \<open>
  The user table belongs to \<open>django.contrib.auth\<close>; a membership points to it, so deleting
  a user takes the user's memberships along, and with them the owner rows that point to
  those.
\<close>

definition Model_save_User :: "db \<Rightarrow> User \<Rightarrow> db \<times> (error + User)" where
  "Model_save_User d self =
     (let k = (case user_pk self of
                 None \<Rightarrow> Suc (foldr max (List.map_filter user_pk (users d)) 0)
               | Some k \<Rightarrow> k);
          self' = self\<lparr>user_pk := Some k\<rparr>
      in (d\<lparr>users := filter (\<lambda>r. user_pk r \<noteq> Some k) (users d) @ [self']\<rparr>, Inr self'))"

definition Model_delete_User :: "db \<Rightarrow> User \<Rightarrow> db \<times> (error + unit)" where
  "Model_delete_User d self =
     (case user_pk self of
        None \<Rightarrow> (d, Inl AssertionError)
      | Some k \<Rightarrow>
         (let gone = filter (\<lambda>r. user_id r = k) (account_users d)
          in (d\<lparr>users := filter (\<lambda>r. user_pk r \<noteq> Some k) (users d),
                 account_users := filter (\<lambda>r. user_id r \<noteq> k) (account_users d),
                 account_owners := filter (\<lambda>r. Some (account_user_id r) \<notin> set (map pk gone))
                     (account_owners d)\<rparr>,
              Inr ())))"

section \<open>Account\<close>

text \<open>
  \<open>Account.save\<close>: the two comparisons with \<open>""\<close>, each followed by the assignment of
  \<open>None\<close>, then the inherited save.
\<close>

definition Account_save :: "datetime \<Rightarrow> db \<Rightarrow> Account \<Rightarrow> db \<times> (error + Account)" where
  "Account_save now d self =
     (let self = (if subdomain self = Some '''' then self\<lparr>subdomain := None\<rparr> else self);
          self = (if domain self = Some '''' then self\<lparr>domain := None\<rparr> else self)
      in Model_save_Account now d self)"

text \<open>
  \<open>Account.is_member\<close> evaluates \<open>self.objects.users.filter(user=user)\<close> from the left.
  \<open>objects\<close> is the manager of the class, and Django's descriptor for a manager answers
  only the class: read through an instance it raises \<open>AttributeError\<close>.
\<close>

text \<open>
  Modelled from the spec: \<open>accounts.managers.AccountManager\<close> is not among the sources.
  The spec calls \<open>objects\<close> a manager; what its attribute \<open>users\<close> would give is left
  open, as the argument \<open>manager_users\<close> of \<open>is_member\<close>.
\<close>

datatype manager = AccountManager

definition ManagerDescriptor_get :: "Account option \<Rightarrow> error + manager" where
  "ManagerDescriptor_get instance =
     (case instance of
        Some obj \<Rightarrow> Inl (AttributeError (''Manager isn'' @ [CHR 0x27] @ ''t accessible via Account instances''))
      | None \<Rightarrow> Inr AccountManager)"

definition is_member :: "(manager \<Rightarrow> error + AccountUser list) \<Rightarrow> db \<Rightarrow> Account \<Rightarrow> User
    \<Rightarrow> db \<times> (error + bool)" where
  "is_member manager_users d self user =
     (case ManagerDescriptor_get (Some self) of
        Inl e \<Rightarrow> (d, Inl e)
      | Inr objects \<Rightarrow>
         (case manager_users objects of
            Inl e \<Rightarrow> (d, Inl e)
          | Inr qs \<Rightarrow>
             (d, Inr (if filter (\<lambda>m. Some (user_id m) = user_pk user) qs \<noteq> []
                      then True else False))))"

text \<open>
  What the docstring of \<open>is_member\<close> and the spec describe: whether a membership row links
  the user to this account.
\<close>

definition is_member_documented :: "db \<Rightarrow> Account \<Rightarrow> User \<Rightarrow> bool" where
  "is_member_documented d self user =
     (filter (\<lambda>m. Some (user_id m) = user_pk user \<and> Some (AccountUser.account_id m) = pk self)
        (account_users d) \<noteq> [])"

section \<open>AccountUser.delete\<close>

text \<open>
  \<open>self.account\<close> resolves the foreign key; \<open>.owner\<close> is the reverse side of
  \<open>AccountOwner.account\<close>, a query for the owner row of that account, which raises
  \<open>DoesNotExist\<close> when there is none; \<open>.id\<close> is the key of that owner row, and it is
  compared with the key of the membership.
\<close>

definition AccountUser_account :: "db \<Rightarrow> AccountUser \<Rightarrow> error + Account" where
  "AccountUser_account d self =
     get Account_model (\<lambda>a. pk a = Some (AccountUser.account_id self)) (accounts d)"

definition Account_owner :: "db \<Rightarrow> Account \<Rightarrow> error + AccountOwner" where
  "Account_owner d self =
     get AccountOwner_model (\<lambda>w. Some (AccountOwner.account_id w) = pk self) (account_owners d)"

definition AccountUser_delete :: "db \<Rightarrow> AccountUser \<Rightarrow> db \<times> (error + unit)" where
  "AccountUser_delete d self =
     (case AccountUser_account d self of
        Inl e \<Rightarrow> (d, Inl e)
      | Inr acct \<Rightarrow>
         (case Account_owner d acct of
            Inl e \<Rightarrow> (d, Inl e)
          | Inr owner \<Rightarrow>
             if pk owner = pk self
             then (d, Inl (OwnershipRequired
                    ''Cannot delete account owner beforeaccount or transferring ownership''))
             else Model_delete_AccountUser d self))"

text \<open>
  What the docstring of \<open>delete\<close> and the spec describe: the membership is protected when
  it is the one the owner row of its account designates.
\<close>

definition is_account_owner :: "db \<Rightarrow> AccountUser \<Rightarrow> bool" where
  "is_account_owner d self =
     (filter (\<lambda>w. AccountOwner.account_id w = AccountUser.account_id self
                 \<and> Some (account_user_id w) = pk self) (account_owners d) \<noteq> [])"

section \<open>AccountUser.full_name\<close>

text \<open>
  \<open>self.user\<close> is the forward side of \<open>ForeignKey(User)\<close>: a query for the user whose key is
  \<open>user_id\<close>. The property formats the two names with \<open>u"%s %s"\<close>. The stored state goes in
  and comes back, so that what the property does to it can be stated.
\<close>

definition AccountUser_user :: "db \<Rightarrow> AccountUser \<Rightarrow> error + User" where
  "AccountUser_user d self = get User_model (\<lambda>u. user_pk u = Some (user_id self)) (users d)"

definition full_name :: "db \<Rightarrow> AccountUser \<Rightarrow> db \<times> (error + string)" where
  "full_name d self =
     (case AccountUser_user d self of
        Inl e \<Rightarrow> (d, Inl e)
      | Inr u1 \<Rightarrow>
         (case AccountUser_user d self of
            Inl e \<Rightarrow> (d, Inl e)
          | Inr u2 \<Rightarrow> (d, Inr (first_name u1 @ '' '' @ last_name u2))))"

text \<open>
  \<open>@property\<close> gives \<open>full_name\<close> a getter and no setter. Python's property object
  answers an assignment through its setter, and raises \<open>AttributeError\<close> where it has
  none, the instance being left as it was.
\<close>

definition property_set :: "('s \<Rightarrow> 'v \<Rightarrow> 's) option \<Rightarrow> db \<Rightarrow> 's \<Rightarrow> 'v \<Rightarrow> db \<times> (error + 's)" where
  "property_set fset d self v =
     (case fset of
        None \<Rightarrow> (d, Inl (AttributeError (''can'' @ [CHR 0x27] @ ''t set attribute'')))
      | Some f \<Rightarrow> (d, Inr (f self v)))"

definition full_name_fset :: "(AccountUser \<Rightarrow> string \<Rightarrow> AccountUser) option" where
  "full_name_fset = None"

definition set_full_name :: "db \<Rightarrow> AccountUser \<Rightarrow> string \<Rightarrow> db \<times> (error + AccountUser)" where
  "set_full_name d self v = property_set full_name_fset d self v"

section \<open>AccountOwner.save\<close>

text \<open>
  \<open>self.account_user.account != self.account\<close>: the membership is resolved, then its
  account, then the account of the owner row; the two accounts are compared as model
  instances, that is by key.
\<close>

definition AccountOwner_account_user :: "db \<Rightarrow> AccountOwner \<Rightarrow> error + AccountUser" where
  "AccountOwner_account_user d self =
     get AccountUser_model (\<lambda>m. pk m = Some (account_user_id self)) (account_users d)"

definition AccountOwner_account :: "db \<Rightarrow> AccountOwner \<Rightarrow> error + Account" where
  "AccountOwner_account d self =
     get Account_model (\<lambda>a. pk a = Some (AccountOwner.account_id self)) (accounts d)"

definition AccountOwner_save :: "datetime \<Rightarrow> db \<Rightarrow> AccountOwner
    \<Rightarrow> db \<times> (error + AccountOwner)" where
  "AccountOwner_save now d self =
     (case AccountOwner_account_user d self of
        Inl e \<Rightarrow> (d, Inl e)
      | Inr account_user \<Rightarrow>
         (case AccountUser_account d account_user of
            Inl e \<Rightarrow> (d, Inl e)
          | Inr a1 \<Rightarrow>
             (case AccountOwner_account d self of
                Inl e \<Rightarrow> (d, Inl e)
              | Inr a2 \<Rightarrow>
                 if Model_ne a1 a2 then (d, Inl AccountMismatch)
                 else Model_save_AccountOwner now d self)))"

section \<open>Runs of operations\<close>

text \<open>
  The operations a caller has on the three models and on the user table: the methods the
  module defines, and the inherited ones where it defines none. A run starts from the empty
  state; an operation that fails leaves the state as it is.
\<close>

datatype op =
    Save_User User
  | Delete_User User
  | Save_Account datetime Account
  | Delete_Account Account
  | Save_AccountUser datetime AccountUser
  | Delete_AccountUser AccountUser
  | Save_AccountOwner datetime AccountOwner
  | Delete_AccountOwner AccountOwner

fun step :: "db \<Rightarrow> op \<Rightarrow> db" where
  "step d (Save_User u) = fst (Model_save_User d u)"
| "step d (Delete_User u) = fst (Model_delete_User d u)"
| "step d (Save_Account now a) = fst (Account_save now d a)"
| "step d (Delete_Account a) = fst (Model_delete_Account d a)"
| "step d (Save_AccountUser now m) = fst (Model_save_AccountUser now d m)"
| "step d (Delete_AccountUser m) = fst (AccountUser_delete d m)"
| "step d (Save_AccountOwner now w) = fst (AccountOwner_save now d w)"
| "step d (Delete_AccountOwner w) = fst (Model_delete_AccountOwner d w)"

definition run :: "op list \<Rightarrow> db" where
  "run ops = foldl step empty_db ops"

text \<open>The two uniqueness properties of the stored state.\<close>

definition unique_memberships :: "db \<Rightarrow> bool" where
  "unique_memberships d =
     distinct (map (\<lambda>m. (user_id m, AccountUser.account_id m)) (account_users d))"

definition one_owner :: "db \<Rightarrow> bool" where
  "one_owner d =
     (distinct (map AccountOwner.account_id (account_owners d))
      \<and> distinct (map account_user_id (account_owners d)))"

section \<open>A scenario\<close>

text \<open>
  Two accounts, two users, three memberships and one owner row, as a caller builds them
  through the operations above; the theorems are evaluated on this state. Jane's
  membership is the second row of its table and the owner row that designates it is the
  first row of its own.
\<close>

definition bob :: User where
  "bob = \<lparr>user_pk = Some 1, first_name = ''Bob'', last_name = ''Roe''\<rparr>"

definition jane :: User where
  "jane = \<lparr>user_pk = Some 2, first_name = ''Jane'', last_name = ''Doe''\<rparr>"

definition acme :: Account where
  "acme = \<lparr>pk = Some 1, created = 5, modified = 5, name = ''Acme'',
     subdomain = None, domain = None, is_active = True\<rparr>"

definition globex :: Account where
  "globex = \<lparr>pk = Some 2, created = 6, modified = 6, name = ''Globex'',
     subdomain = Some '' '', domain = None, is_active = True\<rparr>"

definition bob_acme :: AccountUser where
  "bob_acme = \<lparr>pk = Some 1, created = 7, modified = 7,
     user_id = 1, account_id = 1, is_admin = False\<rparr>"

definition jane_acme :: AccountUser where
  "jane_acme = \<lparr>pk = Some 2, created = 8, modified = 8,
     user_id = 2, account_id = 1, is_admin = True\<rparr>"

definition bob_globex :: AccountUser where
  "bob_globex = \<lparr>pk = Some 3, created = 9, modified = 9,
     user_id = 1, account_id = 2, is_admin = True\<rparr>"

definition acme_owner :: AccountOwner where
  "acme_owner = \<lparr>pk = Some 1, created = 10, modified = 10,
     account_id = 1, account_user_id = 2\<rparr>"

definition scenario :: "op list" where
  "scenario =
     [Save_Account 5 (acme\<lparr>pk := None, subdomain := Some '''', domain := Some ''''\<rparr>),
      Save_Account 6 (globex\<lparr>pk := None\<rparr>),
      Save_User (bob\<lparr>user_pk := None\<rparr>),
      Save_User (jane\<lparr>user_pk := None\<rparr>),
      Save_AccountUser 7 (bob_acme\<lparr>pk := None\<rparr>),
      Save_AccountUser 8 (jane_acme\<lparr>pk := None\<rparr>),
      Save_AccountUser 9 (bob_globex\<lparr>pk := None\<rparr>),
      Save_AccountOwner 10 (acme_owner\<lparr>pk := None\<rparr>)]"

definition scenario_db :: db where
  "scenario_db = \<lparr>users = [bob, jane], accounts = [acme, globex],
     account_users = [bob_acme, jane_acme, bob_globex], account_owners = [acme_owner]\<rparr>"

text \<open>
  The scenario goes on: Bob, Acme and Bob's membership of Acme are saved again, unchanged.
  Each is now the last row of its table, so that no row of these tables sits at the
  position of its key.
\<close>

definition later :: "op list" where
  "later = scenario @ [Save_User bob, Save_Account 5 acme, Save_AccountUser 7 bob_acme]"

definition later_db :: db where
  "later_db = \<lparr>users = [jane, bob], accounts = [globex, acme],
     account_users = [jane_acme, bob_globex, bob_acme], account_owners = [acme_owner]\<rparr>"

section \<open>Theorems\<close>

subsection \<open>Queries and the inherited save\<close>

lemma get_Inr_iff: "get m P rows = Inr r \<longleftrightarrow> filter P rows = [r]"
  by (auto simp: get_def split: list.splits)

lemma get_Inr_holds: "get m P rows = Inr r \<Longrightarrow> P r \<and> r \<in> set rows"
proof -
  assume "get m P rows = Inr r"
  then have "filter P rows = [r]" by (simp add: get_Inr_iff)
  then have "r \<in> set (filter P rows)" by simp
  then show ?thesis by simp
qed

lemma pre_save_Account_fields:
  "name (pre_save now rows self) = name self"
  "subdomain (pre_save now rows self) = subdomain self"
  "domain (pre_save now rows self) = domain self"
  "is_active (pre_save now rows self) = is_active self"
  by (simp_all add: pre_save_def Let_def)




lemma Model_save_Account_Inr:
  assumes "Model_save_Account now d self = (d', Inr self')"
  shows "self' = pre_save now (accounts d) self
       \<and> d' = d\<lparr>accounts := others self' (accounts d) @ [self']\<rparr>"
  using assms by (auto simp: Model_save_Account_def Let_def split: if_splits)


lemma foldr_max_ge: "k \<in> set ks \<Longrightarrow> k \<le> foldr max ks (0::nat)"
  by (induction ks) auto

lemma next_pk_fresh: "filter (\<lambda>r. pk r = Some (next_pk rows)) rows = []"
proof -
  have "pk r \<noteq> Some (next_pk rows)" if "r \<in> set rows" for r
  proof
    assume e: "pk r = Some (next_pk rows)"
    with that have "next_pk rows \<in> set (List.map_filter pk rows)"
      by (force simp: List.map_filter_def)
    then have "next_pk rows \<le> foldr max (List.map_filter pk rows) 0" by (rule foldr_max_ge)
    then show False by (simp add: next_pk_def)
  qed
  then show ?thesis by (simp add: filter_empty_conv)
qed

lemma others_pre_save_new:
  assumes "pk self = None"
  shows "others (pre_save now rows self) rows = rows"
proof -
  have "pk (pre_save now rows self) = Some (next_pk rows)"
    using assms by (simp add: pre_save_def Let_def)
  moreover have "filter (\<lambda>r. pk r \<noteq> Some (next_pk rows)) rows = rows"
    using next_pk_fresh [of rows] by (simp add: filter_empty_conv filter_id_conv)
  ultimately show ?thesis by (simp add: others_def)
qed

subsection \<open>The scenario, evaluated\<close>

lemmas model_defs =
  Account_save_def Model_save_Account_def Model_save_AccountUser_def Model_save_AccountOwner_def
  Model_save_User_def AccountOwner_save_def AccountUser_delete_def Model_delete_AccountUser_def
  AccountOwner_account_user_def AccountUser_account_def AccountOwner_account_def Account_owner_def
  AccountUser_user_def get_def Model_ne_def Model_eq_def
  pre_save_def others_def next_pk_def List.map_filter_simps Let_def

lemmas scenario_defs =
  bob_def jane_def acme_def globex_def bob_acme_def jane_acme_def bob_globex_def acme_owner_def
  scenario_db_def empty_db_def

lemma run_scenario: "run scenario = scenario_db"
  by (simp add: run_def scenario_def model_defs scenario_defs)

lemma run_later: "run later = later_db"
  by (simp add: run_def later_def scenario_def model_defs later_db_def scenario_defs)

subsection \<open>AccountUser.delete\<close>

text \<open>
  What the guard of \<open>delete\<close> decides on: the key of the owner row against the key of the
  membership, two keys of different tables.
\<close>

lemma AccountUser_delete_compares_keys:
  assumes "AccountUser_account d self = Inr acct" and "Account_owner d acct = Inr w"
  shows "AccountUser_delete d self =
     (if pk w = pk self
      then (d, Inl (OwnershipRequired
              ''Cannot delete account owner beforeaccount or transferring ownership''))
      else Model_delete_AccountUser d self)"
  using assms by (simp add: AccountUser_delete_def)

text \<open>
  C1. Deleting the membership that its account's owner row designates must fail with
  "ownership required" and delete nothing, and deleting a membership that is not the owner
  must go through. In the scenario, which the operations reach, Jane's membership is the
  owner of Acme and has key 2, while the owner row has key 1: the guard lets Jane's
  membership be deleted (the owner row goes with it), and it refuses to delete Bob's
  membership, which has key 1 and owns nothing.
\<close>

theorem AccountUser_delete_guard_misses_owner:
  "run scenario = scenario_db
   \<and> is_account_owner scenario_db jane_acme
   \<and> AccountUser_delete scenario_db jane_acme
       = (scenario_db\<lparr>account_users := [bob_acme, bob_globex], account_owners := []\<rparr>, Inr ())
   \<and> \<not> is_account_owner scenario_db bob_acme
   \<and> AccountUser_delete scenario_db bob_acme
       = (scenario_db, Inl (OwnershipRequired
            ''Cannot delete account owner beforeaccount or transferring ownership''))"
proof -
  have "is_account_owner scenario_db jane_acme" "\<not> is_account_owner scenario_db bob_acme"
    by (simp_all add: is_account_owner_def scenario_defs)
  moreover have "AccountUser_delete scenario_db jane_acme
       = (scenario_db\<lparr>account_users := [bob_acme, bob_globex], account_owners := []\<rparr>, Inr ())"
    by (simp add: model_defs scenario_defs)
  moreover have "AccountUser_delete scenario_db bob_acme
       = (scenario_db, Inl (OwnershipRequired
            ''Cannot delete account owner beforeaccount or transferring ownership''))"
    by (simp add: model_defs scenario_defs)
  ultimately show ?thesis by (simp add: run_scenario)
qed

text \<open>
  C8. When the account of a membership has no owner row at all, \<open>delete\<close> does not go
  through as the deletion of a non-owner: reading the owner of the account raises
  \<open>DoesNotExist\<close> for the owner model, and the stored state is the one before the call.
\<close>

theorem AccountUser_delete_without_owner:
  assumes "AccountUser_account d self = Inr acct"
    and "\<forall>w \<in> set (account_owners d). AccountOwner.account_id w \<noteq> AccountUser.account_id self"
  shows "AccountUser_delete d self = (d, Inl (DoesNotExist AccountOwner_model))"
proof -
  from assms(1) have "pk acct = Some (AccountUser.account_id self)"
    unfolding AccountUser_account_def by (rule get_Inr_holds [THEN conjunct1])
  with assms(2)
  have "filter (\<lambda>w. Some (AccountOwner.account_id w) = pk acct) (account_owners d) = []"
    by (auto simp: filter_empty_conv)
  then have "Account_owner d acct = Inl (DoesNotExist AccountOwner_model)"
    by (simp add: Account_owner_def get_def)
  with assms(1) show ?thesis by (simp add: AccountUser_delete_def)
qed

theorem AccountUser_delete_without_owner_witness:
  "AccountUser_account scenario_db bob_globex = Inr globex
   \<and> AccountUser.account_id bob_globex
        \<notin> set (map AccountOwner.account_id (account_owners scenario_db))
   \<and> AccountUser_delete scenario_db bob_globex
       = (scenario_db, Inl (DoesNotExist AccountOwner_model))"
proof -
  have h1: "AccountUser_account scenario_db bob_globex = Inr globex"
    by (simp add: AccountUser_account_def get_def scenario_defs)
  have h2: "\<forall>w \<in> set (account_owners scenario_db).
      AccountOwner.account_id w \<noteq> AccountUser.account_id bob_globex"
    by (simp add: scenario_defs)
  have h3: "AccountUser.account_id bob_globex
      \<notin> set (map AccountOwner.account_id (account_owners scenario_db))"
    by (simp add: scenario_defs)
  show ?thesis using h1 h3 AccountUser_delete_without_owner [OF h1 h2] by simp
qed

subsection \<open>AccountOwner.save\<close>

text \<open>
  C2. Saving an owner row whose membership belongs to another account than the row names
  fails with "account mismatch", before anything is written: the state returned is the
  state given. When the two accounts agree, the call is the inherited save. The referenced
  membership is the one row of the membership table stored under \<open>account_user_id\<close>, and
  the two accounts are the rows of the account table stored under the membership's
  \<open>account_id\<close> and under the owner row's \<open>account_id\<close>.
\<close>

theorem AccountOwner_save_checks_accounts:
  assumes "filter (\<lambda>r. pk r = Some (account_user_id self)) (account_users d) = [m]"
    and "filter (\<lambda>a. pk a = Some (AccountUser.account_id m)) (accounts d) = [a1]"
    and "filter (\<lambda>a. pk a = Some (AccountOwner.account_id self)) (accounts d) = [a2]"
  shows "(AccountUser.account_id m \<noteq> AccountOwner.account_id self
            \<longrightarrow> AccountOwner_save now d self = (d, Inl AccountMismatch))
       \<and> (AccountUser.account_id m = AccountOwner.account_id self
            \<longrightarrow> AccountOwner_save now d self = Model_save_AccountOwner now d self)"
proof -
  from assms(1) have m: "AccountOwner_account_user d self = Inr m"
    by (simp add: AccountOwner_account_user_def get_Inr_iff)
  from assms(2) have a1: "AccountUser_account d m = Inr a1"
    by (simp add: AccountUser_account_def get_Inr_iff)
  from assms(3) have a2: "AccountOwner_account d self = Inr a2"
    by (simp add: AccountOwner_account_def get_Inr_iff)
  from assms(2) have "a1 \<in> set (filter (\<lambda>a. pk a = Some (AccountUser.account_id m)) (accounts d))"
    by simp
  then have k1: "pk a1 = Some (AccountUser.account_id m)" by simp
  from assms(3) have "a2 \<in> set (filter (\<lambda>a. pk a = Some (AccountOwner.account_id self)) (accounts d))"
    by simp
  then have k2: "pk a2 = Some (AccountOwner.account_id self)" by simp
  from m a1 a2 k1 k2 show ?thesis
    by (simp add: AccountOwner_save_def Model_ne_def Model_eq_def)
qed

theorem AccountOwner_save_checks_accounts_witness:
  "filter (\<lambda>r. pk r = Some 2) (account_users later_db) = [jane_acme]
   \<and> AccountUser.account_id jane_acme = 1
   \<and> AccountOwner_save 11 later_db
      \<lparr>pk = None, created = 0, modified = 0, account_id = 2, account_user_id = 2\<rparr>
     = (later_db, Inl AccountMismatch)
   \<and> filter (\<lambda>r. pk r = Some 3) (account_users later_db) = [bob_globex]
   \<and> AccountUser.account_id bob_globex = 2
   \<and> AccountOwner_save 11 later_db
      \<lparr>pk = None, created = 0, modified = 0, account_id = 2, account_user_id = 3\<rparr>
     = (later_db\<lparr>account_owners := [acme_owner,
          \<lparr>pk = Some 2, created = 11, modified = 11, account_id = 2, account_user_id = 3\<rparr>]\<rparr>,
        Inr \<lparr>pk = Some 2, created = 11, modified = 11, account_id = 2, account_user_id = 3\<rparr>)"
proof -
  let ?w1 = "\<lparr>pk = None, created = 0, modified = 0, account_id = 2, account_user_id = 2\<rparr>"
  let ?w2 = "\<lparr>pk = None, created = 0, modified = 0, account_id = 2, account_user_id = 3\<rparr>"
  have m1: "filter (\<lambda>r. pk r = Some (account_user_id ?w1)) (account_users later_db) = [jane_acme]"
    by (simp add: later_db_def scenario_defs)
  have m2: "filter (\<lambda>r. pk r = Some (account_user_id ?w2)) (account_users later_db) = [bob_globex]"
    by (simp add: later_db_def scenario_defs)
  have a1: "filter (\<lambda>a. pk a = Some (AccountUser.account_id jane_acme)) (accounts later_db) = [acme]"
    by (simp add: later_db_def scenario_defs)
  have a2: "filter (\<lambda>a. pk a = Some (AccountUser.account_id bob_globex)) (accounts later_db)
      = [globex]"
    by (simp add: later_db_def scenario_defs)
  have g1: "filter (\<lambda>a. pk a = Some (AccountOwner.account_id ?w1)) (accounts later_db) = [globex]"
    by (simp add: later_db_def scenario_defs)
  have g2: "filter (\<lambda>a. pk a = Some (AccountOwner.account_id ?w2)) (accounts later_db) = [globex]"
    by (simp add: later_db_def scenario_defs)
  have ne: "AccountUser.account_id jane_acme = 1" "AccountUser.account_id bob_globex = 2"
    by (simp_all add: jane_acme_def bob_globex_def)
  have sv: "Model_save_AccountOwner 11 later_db ?w2
     = (later_db\<lparr>account_owners := [acme_owner,
          \<lparr>pk = Some 2, created = 11, modified = 11, account_id = 2, account_user_id = 3\<rparr>]\<rparr>,
        Inr \<lparr>pk = Some 2, created = 11, modified = 11, account_id = 2, account_user_id = 3\<rparr>)"
    by (simp add: model_defs later_db_def scenario_defs)
  show ?thesis
    using AccountOwner_save_checks_accounts [OF m1 a1 g1, of 11]
      AccountOwner_save_checks_accounts [OF m2 a2 g2, of 11] m1 m2 ne sv
    by simp
qed

subsection \<open>Account.save\<close>

text \<open>
  The instance \<open>Account.save\<close> hands to the inherited save: the one given, with an empty
  \<open>subdomain\<close> and an empty \<open>domain\<close> replaced by \<open>None\<close>.
\<close>

lemma Account_save_delegates:
  "Account_save now d self = Model_save_Account now d
     (self\<lparr>subdomain := (if subdomain self = Some '''' then None else subdomain self),
           domain := (if domain self = Some '''' then None else domain self)\<rparr>)"
  by (simp add: Account_save_def Let_def)





text \<open>
  C10. The normalisation is for the empty string alone: a \<open>subdomain\<close> or \<open>domain\<close> that
  is anything else, a blank such as \<open>" "\<close> or \<open>None\<close> among them, is stored as it is.
\<close>

theorem Account_save_keeps_nonblank:
  assumes "Account_save now d self = (d', Inr self')"
  shows "(subdomain self \<noteq> Some '''' \<longrightarrow> subdomain self' = subdomain self)
       \<and> (domain self \<noteq> Some '''' \<longrightarrow> domain self' = domain self)
       \<and> self' \<in> set (accounts d')"
proof -
  let ?s1 = "if subdomain self = Some '''' then self\<lparr>subdomain := None\<rparr> else self"
  let ?s2 = "if domain ?s1 = Some '''' then ?s1\<lparr>domain := None\<rparr> else ?s1"
  from assms have sv: "Model_save_Account now d ?s2 = (d', Inr self')"
    by (simp add: Account_save_def Let_def)
  note r = Model_save_Account_Inr [OF sv]
  from r have "subdomain self' = subdomain ?s2" "domain self' = domain ?s2"
    by (simp_all only: pre_save_Account_fields)
  moreover from r have "accounts d' = others self' (accounts d) @ [self']" by simp
  ultimately show ?thesis by simp
qed

theorem Account_save_keeps_nonblank_witness:
  "Account_save 6 (empty_db\<lparr>accounts := [acme]\<rparr>) (globex\<lparr>pk := None\<rparr>)
     = (empty_db\<lparr>accounts := [acme, globex]\<rparr>, Inr globex)
   \<and> subdomain (globex\<lparr>pk := None\<rparr>) = Some '' '' \<and> subdomain globex = Some '' ''
   \<and> domain (globex\<lparr>pk := None\<rparr>) = None \<and> domain globex = None
   \<and> globex \<in> set (accounts (empty_db\<lparr>accounts := [acme, globex]\<rparr>))"
proof -
  have h: "Account_save 6 (empty_db\<lparr>accounts := [acme]\<rparr>) (globex\<lparr>pk := None\<rparr>)
     = (empty_db\<lparr>accounts := [acme, globex]\<rparr>, Inr globex)"
    by (simp add: model_defs scenario_defs)
  show ?thesis using h Account_save_keeps_nonblank [OF h] by (simp add: globex_def)
qed

subsection \<open>Account.is_member\<close>

lemma is_member_raises:
  "is_member manager_users d self user
     = (d, Inl (AttributeError (''Manager isn'' @ [CHR 0x27] @ ''t accessible via Account instances'')))"
  by (simp add: is_member_def ManagerDescriptor_get_def)

text \<open>
  C4. \<open>is_member\<close> is to answer true exactly when a membership row links the user to the
  account, and to change nothing. It changes nothing, but it answers nothing either:
  reading \<open>objects\<close> through the instance raises \<open>AttributeError\<close> before any row is
  looked at, whatever the manager's \<open>users\<close> would be. In the scenario Jane is a member of
  Acme and not of Globex, and neither call returns a boolean.
\<close>

theorem is_member_raises_for_member:
  "is_member_documented scenario_db acme jane
   \<and> is_member manager_users scenario_db acme jane
       = (scenario_db, Inl (AttributeError (''Manager isn'' @ [CHR 0x27] @ ''t accessible via Account instances'')))
   \<and> \<not> is_member_documented scenario_db globex jane
   \<and> is_member manager_users scenario_db globex jane
       = (scenario_db, Inl (AttributeError (''Manager isn'' @ [CHR 0x27] @ ''t accessible via Account instances'')))"
  by (simp add: is_member_raises is_member_documented_def scenario_defs)

subsection \<open>AccountUser.full_name\<close>

text \<open>
  C7. \<open>full_name\<close> is the first name of the linked user, one space, and the last name,
  the linked user being the one row of the user table stored under \<open>user_id\<close>; where no
  row is stored under that key it raises \<open>DoesNotExist\<close> for the user model. It returns
  the stored state it was given, and it is read-only: assigning to it raises
  \<open>AttributeError\<close> and leaves the stored state as it was.
\<close>

theorem full_name_of_linked_user:
  "fst (full_name d self) = d
   \<and> (\<forall>u. filter (\<lambda>u. user_pk u = Some (user_id self)) (users d) = [u]
          \<longrightarrow> snd (full_name d self) = Inr (first_name u @ '' '' @ last_name u))
   \<and> (filter (\<lambda>u. user_pk u = Some (user_id self)) (users d) = []
          \<longrightarrow> snd (full_name d self) = Inl (DoesNotExist User_model))
   \<and> set_full_name d self v
       = (d, Inl (AttributeError (''can'' @ [CHR 0x27] @ ''t set attribute'')))"
proof -
  have "fst (full_name d self) = d"
    by (simp add: full_name_def split: sum.splits)
  moreover have "snd (full_name d self) = Inr (first_name u @ '' '' @ last_name u)"
    if "filter (\<lambda>u. user_pk u = Some (user_id self)) (users d) = [u]" for u
  proof -
    from that have "AccountUser_user d self = Inr u"
      by (simp add: AccountUser_user_def get_Inr_iff)
    then show ?thesis by (simp add: full_name_def)
  qed
  moreover have "snd (full_name d self) = Inl (DoesNotExist User_model)"
    if "filter (\<lambda>u. user_pk u = Some (user_id self)) (users d) = []"
    using that by (simp add: full_name_def AccountUser_user_def get_def)
  moreover have "set_full_name d self v
      = (d, Inl (AttributeError (''can'' @ [CHR 0x27] @ ''t set attribute'')))"
    by (simp add: set_full_name_def property_set_def full_name_fset_def)
  ultimately show ?thesis by blast
qed

theorem full_name_of_linked_user_witness:
  "filter (\<lambda>u. user_pk u = Some (user_id jane_acme)) (users later_db) = [jane]
   \<and> full_name later_db jane_acme = (later_db, Inr ''Jane Doe'')
   \<and> filter (\<lambda>u. user_pk u = Some (user_id bob_acme)) (users later_db) = [bob]
   \<and> full_name later_db bob_acme = (later_db, Inr ''Bob Roe'')
   \<and> filter (\<lambda>u. user_pk u = Some (user_id (bob_acme\<lparr>user_id := 7\<rparr>))) (users later_db) = []
   \<and> full_name later_db (bob_acme\<lparr>user_id := 7\<rparr>) = (later_db, Inl (DoesNotExist User_model))
   \<and> set_full_name later_db jane_acme ''Jane Roe''
       = (later_db, Inl (AttributeError (''can'' @ [CHR 0x27] @ ''t set attribute'')))"
proof -
  have h1: "filter (\<lambda>u. user_pk u = Some (user_id jane_acme)) (users later_db) = [jane]"
    by (simp add: later_db_def scenario_defs)
  have h2: "filter (\<lambda>u. user_pk u = Some (user_id bob_acme)) (users later_db) = [bob]"
    by (simp add: later_db_def scenario_defs)
  have h3: "filter (\<lambda>u. user_pk u = Some (user_id (bob_acme\<lparr>user_id := 7\<rparr>))) (users later_db)
      = []"
    by (simp add: later_db_def scenario_defs)
  have "snd (full_name later_db jane_acme) = Inr ''Jane Doe''"
    using h1 full_name_of_linked_user [of later_db jane_acme] by (simp add: jane_def)
  moreover have "snd (full_name later_db bob_acme) = Inr ''Bob Roe''"
    using h2 full_name_of_linked_user [of later_db bob_acme] by (simp add: bob_def)
  moreover have "snd (full_name later_db (bob_acme\<lparr>user_id := 7\<rparr>))
      = Inl (DoesNotExist User_model)"
    using h3 full_name_of_linked_user [of later_db "bob_acme\<lparr>user_id := 7\<rparr>"] by blast
  moreover have "fst (full_name later_db m) = later_db" for m
    using full_name_of_linked_user [of later_db m] by simp
  moreover have "set_full_name later_db jane_acme ''Jane Roe''
       = (later_db, Inl (AttributeError (''can'' @ [CHR 0x27] @ ''t set attribute'')))"
    using full_name_of_linked_user [of later_db jane_acme "''Jane Roe''"] by simp
  ultimately show ?thesis using h1 h2 h3 by (simp add: prod_eq_iff)
qed

subsection \<open>Uniqueness in every state the operations reach\<close>

lemma foldl_step_invariant:
  assumes "P d" and "\<And>d x. P d \<Longrightarrow> P (step d x)"
  shows "P (foldl step d ops)"
  using assms(1) by (induction ops arbitrary: d) (simp_all add: assms(2))

lemma account_users_Account_save: "account_users (fst (Account_save now d a)) = account_users d"
  by (simp add: Account_save_def Model_save_Account_def Let_def)

lemma account_owners_Account_save:
  "account_owners (fst (Account_save now d a)) = account_owners d"
  by (simp add: Account_save_def Model_save_Account_def Let_def)

lemma unique_memberships_save:
  "unique_memberships d \<Longrightarrow> unique_memberships (fst (Model_save_AccountUser now d m))"
  by (simp add: unique_memberships_def Model_save_AccountUser_def Let_def others_def
      distinct_map_filter)

lemma unique_memberships_Model_delete:
  "unique_memberships d \<Longrightarrow> unique_memberships (fst (Model_delete_AccountUser d m))"
  by (simp add: unique_memberships_def Model_delete_AccountUser_def distinct_map_filter
      split: option.splits)

lemma unique_memberships_delete:
  "unique_memberships d \<Longrightarrow> unique_memberships (fst (AccountUser_delete d m))"
  by (simp add: AccountUser_delete_def unique_memberships_Model_delete split: sum.splits)

lemma account_users_AccountOwner_save:
  "account_users (fst (AccountOwner_save now d w)) = account_users d"
  by (simp add: AccountOwner_save_def Model_save_AccountOwner_def Let_def split: sum.splits)

lemma unique_memberships_step: "unique_memberships d \<Longrightarrow> unique_memberships (step d x)"
proof (cases x)
  case (Save_User u)
  assume "unique_memberships d"
  with Save_User show ?thesis
    by (simp add: unique_memberships_def Model_save_User_def Let_def)
next
  case (Delete_User u)
  assume "unique_memberships d"
  with Delete_User show ?thesis
    by (simp add: unique_memberships_def Model_delete_User_def Let_def distinct_map_filter
        split: option.splits)
next
  case (Save_Account now a)
  assume "unique_memberships d"
  with Save_Account show ?thesis
    by (simp add: unique_memberships_def account_users_Account_save)
next
  case (Delete_Account a)
  assume "unique_memberships d"
  with Delete_Account show ?thesis
    by (simp add: unique_memberships_def Model_delete_Account_def Let_def distinct_map_filter
        split: option.splits)
next
  case (Save_AccountUser now m)
  assume "unique_memberships d"
  with Save_AccountUser show ?thesis by (simp add: unique_memberships_save)
next
  case (Delete_AccountUser m)
  assume "unique_memberships d"
  with Delete_AccountUser show ?thesis by (simp add: unique_memberships_delete)
next
  case (Save_AccountOwner now w)
  assume "unique_memberships d"
  with Save_AccountOwner show ?thesis
    by (simp add: unique_memberships_def account_users_AccountOwner_save)
next
  case (Delete_AccountOwner w)
  assume "unique_memberships d"
  with Delete_AccountOwner show ?thesis
    by (simp add: unique_memberships_def Model_delete_AccountOwner_def split: option.splits)
qed

lemma Model_save_AccountUser_duplicate:
  assumes "pk m = None"
    and "(user_id m, AccountUser.account_id m)
           \<in> set (map (\<lambda>r. (user_id r, AccountUser.account_id r)) (account_users d))"
  shows "Model_save_AccountUser now d m = (d, Inl (IntegrityError AccountUser_model))"
proof -
  have "user_id (pre_save now (account_users d) m) = user_id m"
    "AccountUser.account_id (pre_save now (account_users d) m) = AccountUser.account_id m"
    by (simp_all add: pre_save_def Let_def)
  with assms show ?thesis
    by (simp add: Model_save_AccountUser_def Let_def others_pre_save_new)
qed

text \<open>
  C5. In every state a run of operations reaches, no two membership rows have the same
  user and account; and there the creation of a membership for a pair that is already
  stored is refused with \<open>IntegrityError\<close>, the state staying as it was.
\<close>

theorem unique_memberships_invariant:
  "unique_memberships (run ops)
   \<and> (\<forall>now m. pk m = None
        \<and> (user_id m, AccountUser.account_id m)
            \<in> set (map (\<lambda>r. (user_id r, AccountUser.account_id r)) (account_users (run ops)))
        \<longrightarrow> Model_save_AccountUser now (run ops) m
              = (run ops, Inl (IntegrityError AccountUser_model)))"
proof -
  have "unique_memberships empty_db" by (simp add: unique_memberships_def empty_db_def)
  then have "unique_memberships (run ops)"
    unfolding run_def by (rule foldl_step_invariant) (rule unique_memberships_step)
  then show ?thesis by (simp add: Model_save_AccountUser_duplicate)
qed

theorem unique_memberships_invariant_witness:
  "unique_memberships scenario_db
   \<and> pk (jane_acme\<lparr>pk := None\<rparr>) = None
   \<and> (user_id (jane_acme\<lparr>pk := None\<rparr>), AccountUser.account_id (jane_acme\<lparr>pk := None\<rparr>))
        \<in> set (map (\<lambda>r. (user_id r, AccountUser.account_id r)) (account_users scenario_db))
   \<and> Model_save_AccountUser 11 scenario_db (jane_acme\<lparr>pk := None\<rparr>)
        = (scenario_db, Inl (IntegrityError AccountUser_model))"
proof -
  have h: "pk (jane_acme\<lparr>pk := None\<rparr>) = None
     \<and> (user_id (jane_acme\<lparr>pk := None\<rparr>), AccountUser.account_id (jane_acme\<lparr>pk := None\<rparr>))
        \<in> set (map (\<lambda>r. (user_id r, AccountUser.account_id r)) (account_users scenario_db))"
    by (simp add: scenario_defs)
  show ?thesis
    using h unique_memberships_invariant [of scenario] unfolding run_scenario by blast
qed

lemma one_owner_save:
  "one_owner d \<Longrightarrow> one_owner (fst (Model_save_AccountOwner now d w))"
  by (simp add: one_owner_def Model_save_AccountOwner_def Let_def others_def
      distinct_map_filter)

lemma one_owner_AccountOwner_save:
  "one_owner d \<Longrightarrow> one_owner (fst (AccountOwner_save now d w))"
  by (simp add: AccountOwner_save_def one_owner_save split: sum.splits)

lemma one_owner_AccountUser_delete:
  "one_owner d \<Longrightarrow> one_owner (fst (AccountUser_delete d m))"
  by (simp add: AccountUser_delete_def Model_delete_AccountUser_def one_owner_def
      distinct_map_filter split: sum.splits option.splits)

lemma one_owner_step: "one_owner d \<Longrightarrow> one_owner (step d x)"
proof (cases x)
  case (Save_User u)
  assume "one_owner d"
  with Save_User show ?thesis by (simp add: one_owner_def Model_save_User_def Let_def)
next
  case (Delete_User u)
  assume "one_owner d"
  with Delete_User show ?thesis
    by (simp add: one_owner_def Model_delete_User_def Let_def distinct_map_filter
        split: option.splits)
next
  case (Save_Account now a)
  assume "one_owner d"
  with Save_Account show ?thesis by (simp add: one_owner_def account_owners_Account_save)
next
  case (Delete_Account a)
  assume "one_owner d"
  with Delete_Account show ?thesis
    by (simp add: one_owner_def Model_delete_Account_def Let_def distinct_map_filter
        split: option.splits)
next
  case (Save_AccountUser now m)
  assume "one_owner d"
  with Save_AccountUser show ?thesis
    by (simp add: one_owner_def Model_save_AccountUser_def Let_def)
next
  case (Delete_AccountUser m)
  assume "one_owner d"
  with Delete_AccountUser show ?thesis by (simp add: one_owner_AccountUser_delete)
next
  case (Save_AccountOwner now w)
  assume "one_owner d"
  with Save_AccountOwner show ?thesis by (simp add: one_owner_AccountOwner_save)
next
  case (Delete_AccountOwner w)
  assume "one_owner d"
  with Delete_AccountOwner show ?thesis
    by (simp add: one_owner_def Model_delete_AccountOwner_def distinct_map_filter
        split: option.splits)
qed

lemma Model_save_AccountOwner_duplicate:
  assumes "pk w = None"
    and "AccountOwner.account_id w \<in> set (map AccountOwner.account_id (account_owners d))
       \<or> account_user_id w \<in> set (map account_user_id (account_owners d))"
  shows "Model_save_AccountOwner now d w = (d, Inl (IntegrityError AccountOwner_model))"
proof -
  have "AccountOwner.account_id (pre_save now (account_owners d) w) = AccountOwner.account_id w"
    "account_user_id (pre_save now (account_owners d) w) = account_user_id w"
    by (simp_all add: pre_save_def Let_def)
  with assms show ?thesis
    by (auto simp: Model_save_AccountOwner_def Let_def others_pre_save_new)
qed

text \<open>
  C6. In every state a run of operations reaches, no two owner rows name the same account
  and no two name the same membership; and there the creation of an owner row for an
  account, or for a membership, that already has one is refused with \<open>IntegrityError\<close>,
  the state staying as it was.
\<close>

theorem one_owner_invariant:
  "one_owner (run ops)
   \<and> (\<forall>now w. pk w = None
        \<and> (AccountOwner.account_id w
              \<in> set (map AccountOwner.account_id (account_owners (run ops)))
            \<or> account_user_id w \<in> set (map account_user_id (account_owners (run ops))))
        \<longrightarrow> Model_save_AccountOwner now (run ops) w
              = (run ops, Inl (IntegrityError AccountOwner_model)))"
proof -
  have "one_owner empty_db" by (simp add: one_owner_def empty_db_def)
  then have "one_owner (run ops)"
    unfolding run_def by (rule foldl_step_invariant) (rule one_owner_step)
  then show ?thesis by (simp add: Model_save_AccountOwner_duplicate)
qed

theorem one_owner_invariant_witness:
  "one_owner scenario_db
   \<and> AccountOwner.account_id
        \<lparr>pk = None, created = 0, modified = 0, account_id = 1, account_user_id = 1\<rparr>
       \<in> set (map AccountOwner.account_id (account_owners scenario_db))
   \<and> Model_save_AccountOwner 11 scenario_db
        \<lparr>pk = None, created = 0, modified = 0, account_id = 1, account_user_id = 1\<rparr>
       = (scenario_db, Inl (IntegrityError AccountOwner_model))
   \<and> account_user_id
        \<lparr>pk = None, created = 0, modified = 0, account_id = 2, account_user_id = 2\<rparr>
       \<in> set (map account_user_id (account_owners scenario_db))
   \<and> Model_save_AccountOwner 11 scenario_db
        \<lparr>pk = None, created = 0, modified = 0, account_id = 2, account_user_id = 2\<rparr>
       = (scenario_db, Inl (IntegrityError AccountOwner_model))"
proof -
  let ?w1 = "\<lparr>pk = None, created = 0, modified = 0, account_id = 1, account_user_id = 1\<rparr>"
  let ?w2 = "\<lparr>pk = None, created = 0, modified = 0, account_id = 2, account_user_id = 2\<rparr>"
  have h1: "pk ?w1 = None
     \<and> AccountOwner.account_id ?w1 \<in> set (map AccountOwner.account_id (account_owners scenario_db))"
    by (simp add: scenario_defs)
  have h2: "pk ?w2 = None
     \<and> account_user_id ?w2 \<in> set (map account_user_id (account_owners scenario_db))"
    by (simp add: scenario_defs)
  show ?thesis
    using h1 h2 one_owner_invariant [of scenario] unfolding run_scenario by blast
qed

end
